theory Spec2Isabelle
  imports Main "HOL-Library.Word"
begin

section \<open>JavaScript strings\<close>

text \<open>
  A JavaScript string is a sequence of UTF-16 code units; \<open>.length\<close> counts code units.
  The literals of the source are ASCII and are written through \<open>lit\<close>.
\<close>

type_synonym code_unit = "16 word"
type_synonym jsstring = "code_unit list"

definition lit :: "string \<Rightarrow> jsstring" where
  "lit s = map of_char s"

text \<open>
  \<open>String.prototype.trim\<close> removes, at both ends, the code units that ECMAScript
  calls WhiteSpace (TAB, VT, FF, ZWNBSP and the Unicode space separators) or
  LineTerminator (LF, CR, LS, PS).
\<close>

definition isWhiteSpace :: "code_unit \<Rightarrow> bool" where
  "isWhiteSpace c \<longleftrightarrow>
     c \<in> set [0x0009, 0x000A, 0x000B, 0x000C, 0x000D, 0x0020, 0x00A0, 0x1680,
               0x2028, 0x2029, 0x202F, 0x205F, 0x3000, 0xFEFF]
     \<or> (0x2000 \<le> c \<and> c \<le> 0x200A)"

definition trim :: "jsstring \<Rightarrow> jsstring" where
  "trim s = rev (dropWhile isWhiteSpace (rev (dropWhile isWhiteSpace s)))"

text \<open>
  \<open>s.replace(/pat/g, rep)\<close> for a pattern that is a fixed, non-empty text: scan from the
  left, replace each occurrence, continue after it.
\<close>

function replace_all :: "jsstring \<Rightarrow> jsstring \<Rightarrow> jsstring \<Rightarrow> jsstring" where
  "replace_all pat rep [] = []"
| "replace_all pat rep (x # xs) =
     (if pat \<noteq> [] \<and> take (length pat) (x # xs) = pat
      then rep @ replace_all pat rep (drop (length pat - 1) xs)
      else x # replace_all pat rep xs)"
  by pat_completeness auto
termination
  by (relation "measure (\<lambda>(pat, rep, s). length s)") auto

section \<open>Regular expressions\<close>

text \<open>
  The fragment of regular expressions that the schemas use: a literal code unit, a class
  given by a range, sequence, \<open>?\<close> and \<open>{n,m}\<close>. \<open>run r s\<close> lists, in the order a
  backtracking matcher tries them, the rests of \<open>s\<close> after a match of \<open>r\<close> at its start.
\<close>

datatype rx = Chr code_unit | Range code_unit code_unit | Seq rx rx | Opt rx | Rep rx nat nat

fun run_rep :: "(jsstring \<Rightarrow> jsstring list) \<Rightarrow> nat \<Rightarrow> nat \<Rightarrow> jsstring \<Rightarrow> jsstring list" where
  "run_rep f n 0 s = (if n = 0 then [s] else [])"
| "run_rep f n (Suc m) s =
     concat (map (run_rep f (n - 1) m) (f s)) @ (if n = 0 then [s] else [])"

fun run :: "rx \<Rightarrow> jsstring \<Rightarrow> jsstring list" where
  "run (Chr c) s = (case s of [] \<Rightarrow> [] | x # xs \<Rightarrow> if x = c then [xs] else [])"
| "run (Range lo hi) s =
     (case s of [] \<Rightarrow> [] | x # xs \<Rightarrow> if lo \<le> x \<and> x \<le> hi then [xs] else [])"
| "run (Seq r1 r2) s = concat (map (run r2) (run r1 s))"
| "run (Opt r) s = run r s @ [s]"
| "run (Rep r n m) s = run_rep (run r) n m s"

text \<open>
  \<open>/^r$/.test(s)\<close> without flags: \<open>^\<close> is the start and \<open>$\<close> the end of the input,
  so the test succeeds when some match of \<open>r\<close> at the start leaves nothing.
\<close>

definition test_anchored :: "rx \<Rightarrow> jsstring \<Rightarrow> bool" where
  "test_anchored r s \<longleftrightarrow> [] \<in> set (run r s)"

text \<open>\<open>/^\+?[1-9]\d{6,14}$/\<close>, the pattern of both schemas.\<close>

definition phone_regex :: rx where
  "phone_regex = Seq (Opt (Chr 0x2B)) (Seq (Range 0x31 0x39) (Rep (Range 0x30 0x39) 6 14))"

section \<open>JSON values and the schema library\<close>

text \<open>
  A parsed JSON value. An object is the list of its properties, each key once; no path
  of the program looks at the value of a number, which is kept as an integer.
\<close>

datatype json =
    JNull
  | JBool bool
  | JNumber int
  | JString jsstring
  | JArray "json list"
  | JObject "(jsstring \<times> json) list"

text \<open>
  The schema library names the type of what it received; a property that the object
  does not have reads as \<open>undefined\<close>.
\<close>

datatype parsed_type =
  T_undefined | T_null | T_boolean | T_number | T_string | T_array | T_object

fun getParsedType :: "json option \<Rightarrow> parsed_type" where
  "getParsedType None = T_undefined"
| "getParsedType (Some JNull) = T_null"
| "getParsedType (Some (JBool b)) = T_boolean"
| "getParsedType (Some (JNumber n)) = T_number"
| "getParsedType (Some (JString s)) = T_string"
| "getParsedType (Some (JArray xs)) = T_array"
| "getParsedType (Some (JObject kvs)) = T_object"

text \<open>
  The library's default messages come from its error map, which the source does not
  fix; it is a parameter here. \<open>invalid_type_message expected received\<close> is the message
  for a value of the wrong type, \<open>too_small_message n\<close> the one for a string shorter
  than \<open>n\<close>.
\<close>

record error_map =
  invalid_type_message :: "parsed_type \<Rightarrow> parsed_type \<Rightarrow> jsstring"
  too_small_message :: "nat \<Rightarrow> jsstring"

record issue =
  issue_path :: "jsstring list"
  issue_message :: jsstring

text \<open>
  The checks of a string schema, in the order they were chained: \<open>.trim()\<close>,
  \<open>.min(n)\<close> or \<open>.min(n, message)\<close>, \<open>.regex(/^r$/, message)\<close>.
\<close>

datatype check = Trim | Min nat "jsstring option" | Regex rx jsstring

text \<open>
  The string schema runs every check in order on the current text: \<open>trim\<close> replaces
  the text, \<open>min\<close> and \<open>regex\<close> add an issue and go on.
\<close>

fun run_checks :: "error_map \<Rightarrow> jsstring list \<Rightarrow> check list \<Rightarrow> jsstring \<Rightarrow> issue list \<times> jsstring" where
  "run_checks em p [] s = ([], s)"
| "run_checks em p (Trim # cs) s = run_checks em p cs (trim s)"
| "run_checks em p (Min n msg # cs) s =
     (let here = (if length s < n
                  then [\<lparr>issue_path = p,
                         issue_message = (case msg of None \<Rightarrow> too_small_message em n | Some m \<Rightarrow> m)\<rparr>]
                  else []);
          (rest, v) = run_checks em p cs s
      in (here @ rest, v))"
| "run_checks em p (Regex r msg # cs) s =
     (let here = (if \<not> test_anchored r s
                  then [\<lparr>issue_path = p, issue_message = msg\<rparr>]
                  else []);
          (rest, v) = run_checks em p cs s
      in (here @ rest, v))"

text \<open>
  \<open>z.string()\<close> with its checks, at path \<open>p\<close>: a value that is not a string is one
  issue of the wrong type; a string is valid, with the text the checks leave, when no
  check raised an issue.
\<close>

definition zstring :: "error_map \<Rightarrow> jsstring list \<Rightarrow> check list \<Rightarrow> json option \<Rightarrow> issue list + jsstring" where
  "zstring em p cs v =
     (case v of
        Some (JString s) \<Rightarrow>
          (case run_checks em p cs s of
             ([], out) \<Rightarrow> Inr out
           | (i # is, out) \<Rightarrow> Inl (i # is))
      | _ \<Rightarrow> Inl [\<lparr>issue_path = p,
                   issue_message = invalid_type_message em T_string (getParsedType v)\<rparr>])"

text \<open>\<open>.optional()\<close>: \<open>undefined\<close> is valid as it is; anything else goes to the schema.\<close>

definition zoptional :: "(json option \<Rightarrow> issue list + 'a) \<Rightarrow> json option \<Rightarrow> issue list + 'a option" where
  "zoptional inner v =
     (case v of
        None \<Rightarrow> Inr None
      | Some x \<Rightarrow> (case inner v of Inl is \<Rightarrow> Inl is | Inr a \<Rightarrow> Inr (Some a)))"

fun issues_of :: "issue list + 'a \<Rightarrow> issue list" where
  "issues_of (Inl is) = is"
| "issues_of (Inr a) = []"

section \<open>The call request and its two schemas\<close>

text \<open>
  The type that both schemas infer. The field \<open>notes\<close> is written \<open>notes'\<close>, the
  plain name being reserved.
\<close>

record CallRequest =
  callerName :: jsstring
  callerNumber :: "jsstring option"
  recipientName :: jsstring
  recipientNumber :: jsstring
  objective :: jsstring
  notes' :: "jsstring option"

text \<open>
  The two schemas of the source have the same shape and differ in their messages only,
  so a schema is the six check lists, in the order the object schema declares its keys.
\<close>

record schema =
  s_callerName :: "check list"
  s_callerNumber :: "check list"
  s_recipientName :: "check list"
  s_recipientNumber :: "check list"
  s_objective :: "check list"
  s_notes :: "check list"

definition requestSchema :: schema where
  "requestSchema =
     \<lparr>s_callerName = [Trim, Min 2 None],
      s_callerNumber = [Trim],
      s_recipientName = [Trim, Min 2 None],
      s_recipientNumber = [Trim, Regex phone_regex (lit ''Phone numbers must be in E.164 format.'')],
      s_objective = [Trim, Min 5 None],
      s_notes = [Trim]\<rparr>"

definition callRequestSchema :: schema where
  "callRequestSchema =
     \<lparr>s_callerName = [Trim, Min 2 (Some (lit ''Caller name is required''))],
      s_callerNumber = [Trim],
      s_recipientName = [Trim, Min 2 (Some (lit ''Recipient name is required''))],
      s_recipientNumber =
        [Trim, Regex phone_regex (lit ''Enter an E.164 phone number, e.g. +15551234567'')],
      s_objective = [Trim, Min 5 (Some (lit ''Please describe what the agent should say''))],
      s_notes = [Trim]\<rparr>"

text \<open>
  \<open>schema.safeParse(input)\<close>. An input that is not an object is one issue at the root.
  Otherwise every key is parsed, in the order of declaration, and their issues are
  collected in that order; the parse succeeds when there is none. Keys that the schema
  does not declare are dropped.
\<close>

definition safeParse :: "error_map \<Rightarrow> schema \<Rightarrow> json \<Rightarrow> issue list + CallRequest" where
  "safeParse em sc input =
     (case input of
        JObject kvs \<Rightarrow>
          (let r1 = zstring em [lit ''callerName''] (s_callerName sc) (map_of kvs (lit ''callerName''));
               r2 = zoptional (zstring em [lit ''callerNumber''] (s_callerNumber sc))
                      (map_of kvs (lit ''callerNumber''));
               r3 = zstring em [lit ''recipientName''] (s_recipientName sc)
                      (map_of kvs (lit ''recipientName''));
               r4 = zstring em [lit ''recipientNumber''] (s_recipientNumber sc)
                      (map_of kvs (lit ''recipientNumber''));
               r5 = zstring em [lit ''objective''] (s_objective sc) (map_of kvs (lit ''objective''));
               r6 = zoptional (zstring em [lit ''notes''] (s_notes sc)) (map_of kvs (lit ''notes''))
           in (case (r1, r2, r3, r4, r5, r6) of
                 (Inr a, Inr b, Inr c, Inr d, Inr e, Inr f) \<Rightarrow>
                   Inr \<lparr>callerName = a, callerNumber = b, recipientName = c,
                        recipientNumber = d, objective = e, notes' = f\<rparr>
               | _ \<Rightarrow> Inl (issues_of r1 @ issues_of r2 @ issues_of r3 @ issues_of r4
                           @ issues_of r5 @ issues_of r6)))
      | _ \<Rightarrow> Inl [\<lparr>issue_path = [],
                   issue_message = invalid_type_message em T_object (getParsedType (Some input))\<rparr>])"

section \<open>Script synthesis\<close>

text \<open>\<open>a ?? b\<close>: \<open>b\<close> when \<open>a\<close> is \<open>undefined\<close> or \<open>null\<close>, else \<open>a\<close>.\<close>

definition nullish_or :: "'a option \<Rightarrow> 'a \<Rightarrow> 'a" where
  "nullish_or a b = (case a of None \<Rightarrow> b | Some v \<Rightarrow> v)"

text \<open>\<open>.filter(Boolean)\<close> on texts: \<open>undefined\<close> and the empty text are dropped.\<close>

fun filter_Boolean :: "jsstring option list \<Rightarrow> jsstring list" where
  "filter_Boolean [] = []"
| "filter_Boolean (None # xs) = filter_Boolean xs"
| "filter_Boolean (Some s # xs) = (if s = [] then filter_Boolean xs else s # filter_Boolean xs)"

fun join :: "jsstring \<Rightarrow> jsstring list \<Rightarrow> jsstring" where
  "join sep [] = []"
| "join sep [x] = x"
| "join sep (x # y # ys) = x @ sep @ join sep (y # ys)"

text \<open>The local constants of \<open>buildCallScript\<close>, one definition each.\<close>

definition greeting :: "CallRequest \<Rightarrow> jsstring" where
  "greeting payload =
     lit ''Hello '' @ recipientName payload @ lit '', this is an automated call for you.''"

definition introduction :: "CallRequest \<Rightarrow> jsstring" where
  "introduction payload =
     nullish_or (Some (callerName payload)) (lit ''Agentic Assistant'')
       @ lit '' asked me to share the following update.''"

definition notes_segment :: "CallRequest \<Rightarrow> jsstring option" where
  "notes_segment payload =
     (case notes' payload of
        None \<Rightarrow> None
      | Some n \<Rightarrow>
          if n = [] then None
          else Some (lit ''Additional context from ''
                       @ nullish_or (Some (callerName payload)) (lit ''the caller'')
                       @ lit '': '' @ n))"

definition generic_callback :: jsstring where
  "generic_callback =
     lit ''If you have any questions, please reach out to them at your convenience.''"

definition callback :: "CallRequest \<Rightarrow> jsstring" where
  "callback payload =
     (case callerNumber payload of
        None \<Rightarrow> generic_callback
      | Some n \<Rightarrow>
          if n = [] then generic_callback
          else lit ''If you have questions, please call back at '' @ n @ lit ''.'')"

definition closing :: jsstring where
  "closing = lit ''Thank you and goodbye!''"

definition buildCallScript :: "CallRequest \<Rightarrow> jsstring" where
  "buildCallScript payload =
     join (lit '' '')
       (filter_Boolean
          [Some (greeting payload), Some (introduction payload), Some (objective payload),
           notes_segment payload, Some (callback payload), Some closing])"

section \<open>Escaping for the speech markup\<close>

definition escapeForXml :: "jsstring \<Rightarrow> jsstring" where
  "escapeForXml input =
     replace_all [0x3E] (lit ''&gt;'')
       (replace_all [0x3C] (lit ''&lt;'')
         (replace_all [0x27] (lit ''&apos;'')
           (replace_all [0x22] (lit ''&quot;'')
             (replace_all [0x26] (lit ''&amp;'') input))))"

text \<open>
  Modelled from the spec: the repository has no unescaping function. The spec speaks of
  unescaping as the inverse of the escaping, entity by entity; \<open>escapeForXml\<close> makes
  its five replacements one after the other, so the inverse undoes them from the last
  to the first.
\<close>

definition unescapeXml :: "jsstring \<Rightarrow> jsstring" where
  "unescapeXml s =
     replace_all (lit ''&amp;'') [0x26]
       (replace_all (lit ''&quot;'') [0x22]
         (replace_all (lit ''&apos;'') [0x27]
           (replace_all (lit ''&lt;'') [0x3C]
             (replace_all (lit ''&gt;'') [0x3E] s))))"

section \<open>The endpoint\<close>

text \<open>
  What a \<open>throw\<close> or a rejected promise carries: an \<open>Error\<close> object, of which the
  handler reads the message only, or any other value.
\<close>

datatype thrown = ErrorObject jsstring | ThrownValue json

text \<open>\<open>process.env\<close>: each variable is a text or is not set.\<close>

record process_env =
  TWILIO_ACCOUNT_SID :: "jsstring option"
  TWILIO_AUTH_TOKEN :: "jsstring option"
  TWILIO_FROM_NUMBER :: "jsstring option"

definition falsy :: "jsstring option \<Rightarrow> bool" where
  "falsy v = (case v of None \<Rightarrow> True | Some s \<Rightarrow> s = [])"

definition missing_configuration :: jsstring where
  "missing_configuration =
     lit ''Missing Twilio configuration. Set TWILIO_ACCOUNT_SID, TWILIO_AUTH_TOKEN, and TWILIO_FROM_NUMBER.''"

definition ensureTwilioEnv :: "process_env \<Rightarrow> thrown + jsstring \<times> jsstring \<times> jsstring" where
  "ensureTwilioEnv env =
     (let accountSid = TWILIO_ACCOUNT_SID env;
          authToken = TWILIO_AUTH_TOKEN env;
          fromNumber = TWILIO_FROM_NUMBER env
      in if falsy accountSid \<or> falsy authToken \<or> falsy fromNumber
         then Inl (ErrorObject missing_configuration)
         else (case (accountSid, authToken, fromNumber) of
                 (Some a, Some t, Some f) \<Rightarrow> Inr (a, t, f)
               | _ \<Rightarrow> Inl (ErrorObject missing_configuration)))"

text \<open>
  The provider's library is outside the repository. \<open>calls.create\<close> takes the three
  fields below and resolves to a call, of which the handler reads the \<open>sid\<close>, or rejects.
  The module is a parameter: from the account identifier and the credential it gives
  the client (here: its \<open>calls.create\<close>), or throws while it is loaded or built.
\<close>

record create_args =
  call_to :: jsstring
  call_from :: jsstring
  twiml :: jsstring

type_synonym twilio_client = "create_args \<Rightarrow> thrown + jsstring"
type_synonym twilio_module = "jsstring \<Rightarrow> jsstring \<Rightarrow> thrown + twilio_client"

record response =
  status :: nat
  success :: bool
  message :: jsstring

definition say_twiml :: "jsstring \<Rightarrow> jsstring" where
  "say_twiml script =
     lit ''<Response><Say voice='' @ [0x22] @ lit ''Polly.Joey'' @ [0x22]
       @ lit '' language='' @ [0x22] @ lit ''en-US'' @ [0x22] @ lit ''>''
       @ escapeForXml script @ lit ''</Say></Response>''"

text \<open>
  The body of the \<open>try\<close> block. The request is what \<open>await request.json()\<close> gives: the
  parsed body, or what it throws. The result is the response returned, or the value
  thrown, together with the arguments of every \<open>calls.create\<close> made on the way.
\<close>

definition try_block ::
  "error_map \<Rightarrow> twilio_module \<Rightarrow> process_env \<Rightarrow> thrown + json
     \<Rightarrow> (thrown + response) \<times> create_args list" where
  "try_block em twilio env request =
     (case request of
        Inl e \<Rightarrow> (Inl e, [])
      | Inr json \<Rightarrow>
          (case safeParse em requestSchema json of
             Inl issues \<Rightarrow>
               (Inr \<lparr>status = 400, success = False,
                     message = (case issues of
                                  [] \<Rightarrow> lit ''Invalid payload''
                                | firstIssue # _ \<Rightarrow> issue_message firstIssue)\<rparr>, [])
           | Inr data \<Rightarrow>
               (case ensureTwilioEnv env of
                  Inl e \<Rightarrow> (Inl e, [])
                | Inr (accountSid, authToken, fromNumber) \<Rightarrow>
                    (let script = buildCallScript data
                     in case twilio accountSid authToken of
                          Inl e \<Rightarrow> (Inl e, [])
                        | Inr client \<Rightarrow>
                            (let args = \<lparr>call_to = recipientNumber data,
                                         call_from = fromNumber,
                                         twiml = say_twiml script\<rparr>
                             in case client args of
                                  Inl e \<Rightarrow> (Inl e, [args])
                                | Inr sid \<Rightarrow>
                                    (Inr \<lparr>status = 200, success = True,
                                          message = lit ''Call queued with SID '' @ sid
                                            @ lit ''. Twilio will place the call shortly.''\<rparr>,
                                     [args]))))))"

definition unexpected_server_error :: jsstring where
  "unexpected_server_error =
     lit ''Unexpected server error while attempting to trigger the call.''"

text \<open>
  What one request does: the response, the calls placed with the provider, and what
  \<open>console.error\<close> was given.
\<close>

record outcome =
  responded :: response
  calls_created :: "create_args list"
  console_error :: "thrown list"

definition POST :: "error_map \<Rightarrow> twilio_module \<Rightarrow> process_env \<Rightarrow> thrown + json \<Rightarrow> outcome" where
  "POST em twilio env request =
     (case try_block em twilio env request of
        (Inr r, created) \<Rightarrow>
          \<lparr>responded = r, calls_created = created, console_error = []\<rparr>
      | (Inl error, created) \<Rightarrow>
          \<lparr>responded =
             \<lparr>status = 500, success = False,
              message = (case error of
                           ErrorObject m \<Rightarrow> m
                         | ThrownValue v \<Rightarrow> unexpected_server_error)\<rparr>,
           calls_created = created, console_error = [error]\<rparr>)"

section \<open>Sample data\<close>

text \<open>
  Concrete values for evaluating the model: an error map with English texts after those
  of the library's default map, a request body without the optional fields and the data
  it parses to, and the same body with both optional fields blank.
\<close>

fun type_name :: "parsed_type \<Rightarrow> jsstring" where
  "type_name T_undefined = lit ''undefined''"
| "type_name T_null = lit ''null''"
| "type_name T_boolean = lit ''boolean''"
| "type_name T_number = lit ''number''"
| "type_name T_string = lit ''string''"
| "type_name T_array = lit ''array''"
| "type_name T_object = lit ''object''"

fun decimal :: "nat \<Rightarrow> jsstring" where
  "decimal n =
     (if n < 10 then [of_nat (48 + n)] else decimal (n div 10) @ [of_nat (48 + n mod 10)])"

definition default_error_map :: error_map where
  "default_error_map =
     \<lparr>invalid_type_message =
        (\<lambda>expected received.
           if received = T_undefined then lit ''Required''
           else lit ''Expected '' @ type_name expected @ lit '', received '' @ type_name received),
      too_small_message =
        (\<lambda>n. lit ''String must contain at least '' @ decimal n @ lit '' character(s)'')\<rparr>"

definition sample_fields :: "(jsstring \<times> json) list" where
  "sample_fields =
     [(lit ''callerName'', JString (lit ''Al'')),
      (lit ''recipientName'', JString (lit '' Jamie '')),
      (lit ''recipientNumber'', JString (lit ''+15551234567'')),
      (lit ''objective'', JString (lit ''Confirm the meeting.''))]"

definition sample_request :: CallRequest where
  "sample_request =
     \<lparr>callerName = lit ''Al'', callerNumber = None, recipientName = lit ''Jamie'',
      recipientNumber = lit ''+15551234567'', objective = lit ''Confirm the meeting.'',
      notes' = None\<rparr>"

definition blank_fields :: "(jsstring \<times> json) list" where
  "blank_fields =
     (lit ''callerNumber'', JString (lit ''  '')) # (lit ''notes'', JString (lit ''  ''))
       # sample_fields"

definition blank_request :: CallRequest where
  "blank_request = sample_request\<lparr>callerNumber := Some [], notes' := Some []\<rparr>"

definition sample_env :: process_env where
  "sample_env =
     \<lparr>TWILIO_ACCOUNT_SID = Some (lit ''AC0''), TWILIO_AUTH_TOKEN = Some (lit ''token''),
      TWILIO_FROM_NUMBER = Some (lit ''+15550000000'')\<rparr>"

text \<open>Three providers: one accepts every call, one rejects every call, one has no client.\<close>

definition accepting_twilio :: twilio_module where
  "accepting_twilio = (\<lambda>accountSid authToken. Inr (\<lambda>args. Inr (lit ''CA1'')))"

definition rejecting_twilio :: twilio_module where
  "rejecting_twilio =
     (\<lambda>accountSid authToken. Inr (\<lambda>args. Inl (ErrorObject (lit ''Authenticate''))))"

definition broken_twilio :: twilio_module where
  "broken_twilio = (\<lambda>accountSid authToken. Inl (ThrownValue JNull))"

section \<open>The validation rules in the words of the specification\<close>

text \<open>
  The specification gives one rule per required field, on the trimmed text: a minimum
  length for \<open>callerName\<close>, \<open>recipientName\<close> and \<open>objective\<close>, the pattern for
  \<open>recipientNumber\<close>. \<open>rule_min\<close> and \<open>rule_phone\<close> give the message of a violated
  rule; a value that is no text violates the rule of its field. \<open>first_violation\<close>
  takes the fields in the order callerName, recipientName, recipientNumber, objective.
\<close>

definition optional_text :: "json option \<Rightarrow> bool" where
  "optional_text v = (case v of None \<Rightarrow> True | Some (JString s) \<Rightarrow> True | Some other \<Rightarrow> False)"

definition rule_min :: "error_map \<Rightarrow> nat \<Rightarrow> json option \<Rightarrow> jsstring option" where
  "rule_min em n v =
     (case v of
        Some (JString s) \<Rightarrow> if length (trim s) < n then Some (too_small_message em n) else None
      | _ \<Rightarrow> Some (invalid_type_message em T_string (getParsedType v)))"

definition rule_phone :: "error_map \<Rightarrow> json option \<Rightarrow> jsstring option" where
  "rule_phone em v =
     (case v of
        Some (JString s) \<Rightarrow>
          if test_anchored phone_regex (trim s) then None
          else Some (lit ''Phone numbers must be in E.164 format.'')
      | _ \<Rightarrow> Some (invalid_type_message em T_string (getParsedType v)))"

definition first_violation :: "error_map \<Rightarrow> (jsstring \<times> json) list \<Rightarrow> jsstring option" where
  "first_violation em kvs =
     (case rule_min em 2 (map_of kvs (lit ''callerName'')) of
        Some m \<Rightarrow> Some m
      | None \<Rightarrow>
     (case rule_min em 2 (map_of kvs (lit ''recipientName'')) of
        Some m \<Rightarrow> Some m
      | None \<Rightarrow>
     (case rule_phone em (map_of kvs (lit ''recipientNumber'')) of
        Some m \<Rightarrow> Some m
      | None \<Rightarrow> rule_min em 5 (map_of kvs (lit ''objective'')))))"

text \<open>The sample body with a \<open>callerNumber\<close> that is \<open>null\<close>.\<close>

definition null_number_fields :: "(jsstring \<times> json) list" where
  "null_number_fields = (lit ''callerNumber'', JNull) # sample_fields"

section \<open>The activity log of the page\<close>

datatype CallStatus = Queued | Success | Error

record CallLogEntry =
  entry_id :: jsstring
  createdAt :: jsstring
  entry_status :: CallStatus
  entry_recipientName :: jsstring
  entry_recipientNumber :: jsstring
  entry_objective :: jsstring
  entry_notes :: "jsstring option"
  responseMessage :: jsstring

text \<open>The form has the type that the page's schema infers.\<close>

definition defaultForm :: CallRequest where
  "defaultForm =
     \<lparr>callerName = lit ''Agentic Assistant'', callerNumber = Some [], recipientName = [],
      recipientNumber = [], objective = [], notes' = Some []\<rparr>"

text \<open>The four state cells of \<open>HomePage\<close>.\<close>

record page_state =
  form :: CallRequest
  logs :: "CallLogEntry list"
  isSubmitting :: bool
  formErrors :: "jsstring \<rightharpoonup> jsstring"

definition resetForm :: "page_state \<Rightarrow> page_state" where
  "resetForm s = s\<lparr>form := defaultForm, formErrors := Map.empty\<rparr>"

text \<open>The form's object, as \<open>safeParse\<close> receives it: a key that is \<open>undefined\<close> is absent.\<close>

definition form_object :: "CallRequest \<Rightarrow> json" where
  "form_object f =
     JObject
       ([(lit ''callerName'', JString (callerName f))]
        @ (case callerNumber f of None \<Rightarrow> [] | Some n \<Rightarrow> [(lit ''callerNumber'', JString n)])
        @ [(lit ''recipientName'', JString (recipientName f)),
           (lit ''recipientNumber'', JString (recipientNumber f)),
           (lit ''objective'', JString (objective f))]
        @ (case notes' f of None \<Rightarrow> [] | Some n \<Rightarrow> [(lit ''notes'', JString n)]))"

text \<open>
  The loop over the issues: the first message of each key is kept, \<open>!errors[key]\<close>
  being true also for an empty message.
\<close>

fun collect_errors :: "issue list \<Rightarrow> (jsstring \<rightharpoonup> jsstring) \<Rightarrow> (jsstring \<rightharpoonup> jsstring)" where
  "collect_errors [] errors = errors"
| "collect_errors (issue # rest) errors =
     collect_errors rest
       (case issue_path issue of
          [] \<Rightarrow> errors
        | key # _ \<Rightarrow> if falsy (errors key) then errors(key \<mapsto> issue_message issue) else errors)"

text \<open>The body of the endpoint's response, as the page reads it.\<close>

record payload =
  payload_success :: bool
  payload_message :: jsstring

text \<open>
  \<open>handleSubmit\<close> up to its \<open>await\<close>: \<open>uuid\<close> is what \<open>crypto.randomUUID()\<close> gives and
  \<open>now\<close> the time stamp. An invalid form sets the field errors and sends nothing; a
  valid one puts the queued entry in front of the log and sends the parsed data.
\<close>

definition handleSubmit_begin ::
  "error_map \<Rightarrow> jsstring \<Rightarrow> jsstring \<Rightarrow> page_state
     \<Rightarrow> page_state \<times> (CallLogEntry \<times> CallRequest) option" where
  "handleSubmit_begin em uuid now s =
     (case safeParse em callRequestSchema (form_object (form s)) of
        Inl issues \<Rightarrow> (s\<lparr>formErrors := collect_errors issues Map.empty\<rparr>, None)
      | Inr data \<Rightarrow>
          (let optimisticLog =
                 \<lparr>entry_id = uuid, createdAt = now, entry_status = Queued,
                  entry_recipientName = recipientName data,
                  entry_recipientNumber = recipientNumber data,
                  entry_objective = objective data,
                  entry_notes = notes' data,
                  responseMessage = lit ''Sending call request...''\<rparr>
           in (s\<lparr>isSubmitting := True, logs := optimisticLog # logs s\<rparr>,
               Some (optimisticLog, data))))"

text \<open>
  \<open>handleSubmit\<close> after its \<open>await\<close>: \<open>fetched\<close> is the payload that \<open>fetch\<close> and
  \<open>response.json()\<close> give, or what they throw. The state is the one at that moment:
  each \<open>setLogs\<close> maps over the log it finds.
\<close>

definition handleSubmit_settle ::
  "CallLogEntry \<Rightarrow> thrown + payload \<Rightarrow> page_state \<Rightarrow> page_state" where
  "handleSubmit_settle optimisticLog fetched s =
     (let after =
            (case fetched of
               Inr payload \<Rightarrow>
                 (let s1 = s\<lparr>logs :=
                             map (\<lambda>log. if entry_id log = entry_id optimisticLog
                                        then log\<lparr>entry_status :=
                                                   (if payload_success payload then Success
                                                    else Error),
                                                 responseMessage := payload_message payload\<rparr>
                                        else log)
                               (logs s)\<rparr>
                  in if payload_success payload then resetForm s1 else s1)
             | Inl error \<Rightarrow>
                 s\<lparr>logs :=
                     map (\<lambda>log. if entry_id log = entry_id optimisticLog
                                then log\<lparr>entry_status := Error,
                                         responseMessage :=
                                           lit ''Unexpected error communicating with the call service. Check server logs.''\<rparr>
                                else log)
                       (logs s)\<rparr>)
      in after\<lparr>isSubmitting := False\<rparr>)"

text \<open>What either branch of the reconciliation does to the entry it finds.\<close>

definition settled :: "thrown + payload \<Rightarrow> CallLogEntry \<Rightarrow> CallLogEntry" where
  "settled fetched log =
     (case fetched of
        Inr payload \<Rightarrow>
          log\<lparr>entry_status := (if payload_success payload then Success else Error),
              responseMessage := payload_message payload\<rparr>
      | Inl error \<Rightarrow>
          log\<lparr>entry_status := Error,
              responseMessage :=
                lit ''Unexpected error communicating with the call service. Check server logs.''\<rparr>)"

text \<open>A page with a valid form, and the entries that two submissions of it create.\<close>

definition sample_page :: page_state where
  "sample_page =
     \<lparr>form = sample_request, logs = [], isSubmitting = False, formErrors = Map.empty\<rparr>"

definition sample_entry :: "jsstring \<Rightarrow> jsstring \<Rightarrow> CallLogEntry" where
  "sample_entry uuid now =
     \<lparr>entry_id = uuid, createdAt = now, entry_status = Queued,
      entry_recipientName = lit ''Jamie'', entry_recipientNumber = lit ''+15551234567'',
      entry_objective = lit ''Confirm the meeting.'', entry_notes = None,
      responseMessage = lit ''Sending call request...''\<rparr>"

definition page_a :: page_state where
  "page_a =
     sample_page\<lparr>isSubmitting := True, logs := [sample_entry (lit ''a'') (lit ''t1'')]\<rparr>"

definition page_b :: page_state where
  "page_b =
     page_a\<lparr>logs := [sample_entry (lit ''b'') (lit ''t2''), sample_entry (lit ''a'') (lit ''t1'')]\<rparr>"

section \<open>Evaluating the model\<close>

declare decimal.simps [simp del]

lemma run_rep_numeral [simp]:
  "run_rep f n (numeral k) s =
     concat (map (run_rep f (n - 1) (pred_numeral k)) (f s)) @ (if n = 0 then [s] else [])"
  by (simp add: numeral_eq_Suc)

lemma zstring_recipientNumber:
  "zstring em p [Trim, Regex r msg] (Some (JString s)) =
     (if test_anchored r (trim s) then Inr (trim s)
      else Inl [\<lparr>issue_path = p, issue_message = msg\<rparr>])"
  by (simp add: zstring_def)

lemma zstring_min:
  "zstring em p [Trim, Min n msg] (Some (JString s)) =
     (if length (trim s) < n
      then Inl [\<lparr>issue_path = p,
                 issue_message = (case msg of None \<Rightarrow> too_small_message em n | Some m \<Rightarrow> m)\<rparr>]
      else Inr (trim s))"
  by (simp add: zstring_def)

lemma zoptional_None: "zoptional inner None = Inr None"
  by (simp add: zoptional_def)

lemma zoptional_trim:
  "zoptional (zstring em p [Trim]) (Some (JString s)) = Inr (Some (trim s))"
  by (simp add: zoptional_def zstring_def)

lemma trim_samples:
  "trim (lit ''Al'') = lit ''Al''" "trim (lit '' Jamie '') = lit ''Jamie''"
  "trim (lit ''Jamie'') = lit ''Jamie''"
  "trim (lit ''+15551234567'') = lit ''+15551234567''"
  "trim (lit ''Confirm the meeting.'') = lit ''Confirm the meeting.''"
  "trim (lit ''  '') = []" "trim (lit '' A '') = lit ''A''"
  by (simp_all add: trim_def isWhiteSpace_def lit_def)

lemma phone_sample: "test_anchored phone_regex (lit ''+15551234567'')"
  by (simp add: test_anchored_def phone_regex_def lit_def)

lemma length_samples:
  "length (lit ''Al'') = 2" "length (lit ''Jamie'') = 5"
  "length (lit ''Confirm the meeting.'') = 20" "length (lit ''A'') = 1"
  by (simp_all add: lit_def)

lemma sample_lookup:
  "map_of sample_fields (lit ''callerName'') = Some (JString (lit ''Al''))"
  "map_of sample_fields (lit ''callerNumber'') = None"
  "map_of sample_fields (lit ''recipientName'') = Some (JString (lit '' Jamie ''))"
  "map_of sample_fields (lit ''recipientNumber'') = Some (JString (lit ''+15551234567''))"
  "map_of sample_fields (lit ''objective'') = Some (JString (lit ''Confirm the meeting.''))"
  "map_of sample_fields (lit ''notes'') = None"
  by (simp_all add: sample_fields_def lit_def)

lemma blank_lookup:
  "map_of blank_fields (lit ''callerName'') = Some (JString (lit ''Al''))"
  "map_of blank_fields (lit ''callerNumber'') = Some (JString (lit ''  ''))"
  "map_of blank_fields (lit ''recipientName'') = Some (JString (lit '' Jamie ''))"
  "map_of blank_fields (lit ''recipientNumber'') = Some (JString (lit ''+15551234567''))"
  "map_of blank_fields (lit ''objective'') = Some (JString (lit ''Confirm the meeting.''))"
  "map_of blank_fields (lit ''notes'') = Some (JString (lit ''  ''))"
  by (simp_all add: blank_fields_def sample_fields_def lit_def)

lemma null_number_lookup:
  "map_of null_number_fields (lit ''callerName'') = Some (JString (lit ''Al''))"
  "map_of null_number_fields (lit ''callerNumber'') = Some JNull"
  "map_of null_number_fields (lit ''recipientName'') = Some (JString (lit '' Jamie ''))"
  "map_of null_number_fields (lit ''recipientNumber'') = Some (JString (lit ''+15551234567''))"
  "map_of null_number_fields (lit ''objective'') = Some (JString (lit ''Confirm the meeting.''))"
  "map_of null_number_fields (lit ''notes'') = None"
  by (simp_all add: null_number_fields_def sample_fields_def lit_def)

lemma safeParse_sample:
  "safeParse em requestSchema (JObject sample_fields) = Inr sample_request"
  by (simp add: safeParse_def requestSchema_def sample_lookup zstring_min zstring_recipientNumber
      zoptional_None trim_samples phone_sample length_samples sample_request_def)

lemma safeParse_blank:
  "safeParse em requestSchema (JObject blank_fields)
     = Inr blank_request"
  by (simp add: safeParse_def requestSchema_def blank_lookup zstring_min zstring_recipientNumber
      zoptional_trim trim_samples phone_sample length_samples sample_request_def
      blank_request_def)

lemma safeParse_null_number:
  "safeParse em requestSchema (JObject null_number_fields)
     = Inl [\<lparr>issue_path = [lit ''callerNumber''],
              issue_message = invalid_type_message em T_string T_null\<rparr>]"
  by (simp add: safeParse_def requestSchema_def null_number_lookup zstring_min
      zstring_recipientNumber zoptional_None trim_samples phone_sample length_samples)
    (simp add: zoptional_def zstring_def)

lemma ensureTwilioEnv_sample:
  "ensureTwilioEnv sample_env = Inr (lit ''AC0'', lit ''token'', lit ''+15550000000'')"
  by (simp add: ensureTwilioEnv_def sample_env_def falsy_def lit_def)

section \<open>What a successful parse says about the data\<close>

lemma zstring_min_InrD:
  "zstring em p [Trim, Min n msg] v = Inr e \<Longrightarrow>
     \<exists>s. v = Some (JString s) \<and> e = trim s \<and> n \<le> length e"
  by (auto simp: zstring_def split: option.splits json.splits if_splits)

lemma zoptional_trim_InrD:
  "zoptional (zstring em p [Trim]) v = Inr e \<Longrightarrow>
     (v = None \<and> e = None) \<or> (\<exists>s. v = Some (JString s) \<and> e = Some (trim s))"
  by (auto simp: zoptional_def zstring_def split: option.splits json.splits sum.splits)

lemma safeParse_InrD:
  assumes "safeParse em sc input = Inr p"
  shows "\<exists>kvs. input = JObject kvs
     \<and> zstring em [lit ''callerName''] (s_callerName sc) (map_of kvs (lit ''callerName''))
         = Inr (callerName p)
     \<and> zoptional (zstring em [lit ''callerNumber''] (s_callerNumber sc))
           (map_of kvs (lit ''callerNumber''))
         = Inr (callerNumber p)
     \<and> zstring em [lit ''recipientName''] (s_recipientName sc) (map_of kvs (lit ''recipientName''))
         = Inr (recipientName p)
     \<and> zstring em [lit ''recipientNumber''] (s_recipientNumber sc)
           (map_of kvs (lit ''recipientNumber''))
         = Inr (recipientNumber p)
     \<and> zstring em [lit ''objective''] (s_objective sc) (map_of kvs (lit ''objective''))
         = Inr (objective p)
     \<and> zoptional (zstring em [lit ''notes''] (s_notes sc)) (map_of kvs (lit ''notes''))
         = Inr (notes' p)"
  using assms
  by (auto simp: safeParse_def Let_def split: json.splits sum.splits)

lemma safeParse_objective:
  assumes "safeParse em requestSchema input = Inr p"
  shows "5 \<le> length (objective p)"
  using safeParse_InrD [OF assms] zstring_min_InrD [of em _ 5 None _ "objective p"]
  by (auto simp: requestSchema_def)

lemma map_of_filter_key:
  "map_of (filter (\<lambda>kv. fst kv \<noteq> a) kvs) k = (if k = a then None else map_of kvs k)"
  by (induction kvs) auto

lemma lit_keys_distinct:
  "lit ''callerName'' \<noteq> lit ''callerNumber''" "lit ''recipientName'' \<noteq> lit ''callerNumber''"
  "lit ''recipientNumber'' \<noteq> lit ''callerNumber''" "lit ''objective'' \<noteq> lit ''callerNumber''"
  "lit ''notes'' \<noteq> lit ''callerNumber''"
  "lit ''callerName'' \<noteq> lit ''notes''" "lit ''recipientName'' \<noteq> lit ''notes''"
  "lit ''recipientNumber'' \<noteq> lit ''notes''" "lit ''objective'' \<noteq> lit ''notes''"
  "lit ''callerNumber'' \<noteq> lit ''notes''"
  by (simp_all add: lit_def)

lemma safeParse_without_callerNumber:
  assumes "safeParse em sc (JObject kvs) = Inr p"
  shows "safeParse em sc (JObject (filter (\<lambda>kv. fst kv \<noteq> lit ''callerNumber'') kvs))
           = Inr (p\<lparr>callerNumber := None\<rparr>)"
  using safeParse_InrD [OF assms]
  by (simp add: safeParse_def map_of_filter_key lit_keys_distinct zoptional_def)

lemma safeParse_without_notes:
  assumes "safeParse em sc (JObject kvs) = Inr p"
  shows "safeParse em sc (JObject (filter (\<lambda>kv. fst kv \<noteq> lit ''notes'') kvs))
           = Inr (p\<lparr>notes' := None\<rparr>)"
  using safeParse_InrD [OF assms]
  by (simp add: safeParse_def map_of_filter_key lit_keys_distinct zoptional_def)

section \<open>The pattern of the recipient number\<close>

text \<open>
  C8. The rule of \<open>recipientNumber\<close> in the endpoint's schema accepts \<open>+15551234567\<close> and
  \<open>5551234\<close>, and rejects \<open>0123456789\<close>, \<open>+1555\<close> and \<open>abc\<close> with the schema's own
  message.
\<close>

theorem recipientNumber_examples:
  "zstring em p (s_recipientNumber requestSchema) (Some (JString (lit ''+15551234567'')))
     = Inr (lit ''+15551234567'')
   \<and> zstring em p (s_recipientNumber requestSchema) (Some (JString (lit ''5551234'')))
     = Inr (lit ''5551234'')
   \<and> zstring em p (s_recipientNumber requestSchema) (Some (JString (lit ''0123456789'')))
     = Inl [\<lparr>issue_path = p, issue_message = lit ''Phone numbers must be in E.164 format.''\<rparr>]
   \<and> zstring em p (s_recipientNumber requestSchema) (Some (JString (lit ''+1555'')))
     = Inl [\<lparr>issue_path = p, issue_message = lit ''Phone numbers must be in E.164 format.''\<rparr>]
   \<and> zstring em p (s_recipientNumber requestSchema) (Some (JString (lit ''abc'')))
     = Inl [\<lparr>issue_path = p, issue_message = lit ''Phone numbers must be in E.164 format.''\<rparr>]"
proof -
  have t: "trim (lit ''+15551234567'') = lit ''+15551234567''"
    "trim (lit ''5551234'') = lit ''5551234''"
    "trim (lit ''0123456789'') = lit ''0123456789''"
    "trim (lit ''+1555'') = lit ''+1555''"
    "trim (lit ''abc'') = lit ''abc''"
    by (simp_all add: trim_def isWhiteSpace_def lit_def)
  have m: "test_anchored phone_regex (lit ''+15551234567'')"
    "test_anchored phone_regex (lit ''5551234'')"
    "\<not> test_anchored phone_regex (lit ''0123456789'')"
    "\<not> test_anchored phone_regex (lit ''+1555'')"
    "\<not> test_anchored phone_regex (lit ''abc'')"
    by (simp_all add: test_anchored_def phone_regex_def lit_def)
  show ?thesis
    by (simp only: requestSchema_def schema.simps zstring_recipientNumber t m if_True if_False
        simp_thms)
qed

section \<open>Script synthesis\<close>

lemma greeting_not_Nil: "greeting p \<noteq> []"
  by (simp add: greeting_def lit_def)

lemma introduction_not_Nil: "introduction p \<noteq> []"
  by (simp add: introduction_def lit_def)

lemma callback_not_Nil: "callback p \<noteq> []"
  by (simp add: callback_def generic_callback_def lit_def split: option.splits)

lemma closing_not_Nil: "closing \<noteq> []"
  by (simp add: closing_def lit_def)

text \<open>
  C7. For the data of a request that the endpoint's schema accepted, with no notes and
  no callerNumber, the script is the greeting, the introduction, the objective, the
  generic callback sentence and the closing sentence, in this order, with one space
  between them; there is no notes segment.
\<close>

theorem script_without_optionals:
  assumes "safeParse em requestSchema input = Inr p"
    and "notes' p = None" and "callerNumber p = None"
  shows "buildCallScript p =
           lit ''Hello '' @ recipientName p @ lit '', this is an automated call for you.''
           @ lit '' ''
           @ callerName p @ lit '' asked me to share the following update.''
           @ lit '' '' @ objective p
           @ lit '' ''
           @ lit ''If you have any questions, please reach out to them at your convenience.''
           @ lit '' '' @ lit ''Thank you and goodbye!''
       \<and> notes_segment p = None"
proof -
  have obj: "objective p \<noteq> []"
    using safeParse_objective [OF assms(1)] by auto
  have n: "notes_segment p = None"
    by (simp add: notes_segment_def assms(2))
  have c: "callback p = generic_callback"
    by (simp add: callback_def assms(3))
  have "buildCallScript p =
      join (lit '' '') [greeting p, introduction p, objective p, generic_callback, closing]"
    using obj greeting_not_Nil [of p] introduction_not_Nil [of p] closing_not_Nil
      callback_not_Nil [of p]
    by (simp add: buildCallScript_def n c [symmetric])
  then show ?thesis
    by (simp add: n greeting_def introduction_def nullish_or_def generic_callback_def closing_def)
qed

theorem script_without_optionals_witness:
  "safeParse default_error_map requestSchema (JObject sample_fields) = Inr sample_request
   \<and> notes' sample_request = None \<and> callerNumber sample_request = None
   \<and> buildCallScript sample_request =
       lit ''Hello Jamie, this is an automated call for you. Al asked me to share the following update. Confirm the meeting. If you have any questions, please reach out to them at your convenience. Thank you and goodbye!''"
proof -
  have n: "notes' sample_request = None" and c: "callerNumber sample_request = None"
    by (simp_all add: sample_request_def)
  from script_without_optionals [OF safeParse_sample [of default_error_map] n c]
  have "buildCallScript sample_request =
      lit ''Hello Jamie, this is an automated call for you. Al asked me to share the following update. Confirm the meeting. If you have any questions, please reach out to them at your convenience. Thank you and goodbye!''"
    by (simp add: sample_request_def lit_def)
  with safeParse_sample [of default_error_map] n c show ?thesis
    by simp
qed

lemma buildCallScript_empty_callerNumber:
  assumes "callerNumber p = Some []"
  shows "buildCallScript p = buildCallScript (p\<lparr>callerNumber := None\<rparr>)"
proof -
  let ?q = "p\<lparr>callerNumber := None\<rparr>"
  have "greeting ?q = greeting p" "introduction ?q = introduction p"
    "objective ?q = objective p" "notes_segment ?q = notes_segment p"
    by (simp_all add: greeting_def introduction_def notes_segment_def split: option.splits)
  moreover have "callback ?q = callback p"
    using assms by (simp add: callback_def)
  ultimately show ?thesis
    by (simp only: buildCallScript_def)
qed

lemma buildCallScript_empty_notes:
  assumes "notes' p = Some []"
  shows "buildCallScript p = buildCallScript (p\<lparr>notes' := None\<rparr>)"
proof -
  let ?q = "p\<lparr>notes' := None\<rparr>"
  have "greeting ?q = greeting p" "introduction ?q = introduction p"
    "objective ?q = objective p" "callback ?q = callback p"
    by (simp_all add: greeting_def introduction_def callback_def split: option.splits)
  moreover have "notes_segment ?q = notes_segment p"
    using assms by (simp add: notes_segment_def)
  ultimately show ?thesis
    by (simp only: buildCallScript_def)
qed

text \<open>
  C10. When the endpoint's schema accepts a request whose callerNumber is a text that
  trims to the empty text, the callback sentence is the generic one, and the script and
  the parsed data are those of the same request without the callerNumber key; when its
  notes are such a text, there is no notes segment, and the script and the parsed data
  are those of the same request without the notes key.
\<close>

theorem empty_optional_as_absent:
  assumes "safeParse em requestSchema (JObject kvs) = Inr p"
  shows "(map_of kvs (lit ''callerNumber'') = Some (JString s) \<and> trim s = [] \<longrightarrow>
            callback p = generic_callback
            \<and> buildCallScript p = buildCallScript (p\<lparr>callerNumber := None\<rparr>)
            \<and> safeParse em requestSchema
                 (JObject (filter (\<lambda>kv. fst kv \<noteq> lit ''callerNumber'') kvs))
               = Inr (p\<lparr>callerNumber := None\<rparr>))
       \<and> (map_of kvs (lit ''notes'') = Some (JString s) \<and> trim s = [] \<longrightarrow>
            notes_segment p = None
            \<and> buildCallScript p = buildCallScript (p\<lparr>notes' := None\<rparr>)
            \<and> safeParse em requestSchema
                 (JObject (filter (\<lambda>kv. fst kv \<noteq> lit ''notes'') kvs))
               = Inr (p\<lparr>notes' := None\<rparr>))"
proof (intro conjI impI)
  assume a: "map_of kvs (lit ''callerNumber'') = Some (JString s) \<and> trim s = []"
  from safeParse_InrD [OF assms] a have cn: "callerNumber p = Some []"
    by (auto simp: requestSchema_def dest: zoptional_trim_InrD)
  show "callback p = generic_callback"
    by (simp add: callback_def cn)
  show "buildCallScript p = buildCallScript (p\<lparr>callerNumber := None\<rparr>)"
    by (rule buildCallScript_empty_callerNumber [OF cn])
  show "safeParse em requestSchema (JObject (filter (\<lambda>kv. fst kv \<noteq> lit ''callerNumber'') kvs))
          = Inr (p\<lparr>callerNumber := None\<rparr>)"
    by (rule safeParse_without_callerNumber [OF assms])
next
  assume a: "map_of kvs (lit ''notes'') = Some (JString s) \<and> trim s = []"
  from safeParse_InrD [OF assms] a have n: "notes' p = Some []"
    by (auto simp: requestSchema_def dest: zoptional_trim_InrD)
  show "notes_segment p = None"
    by (simp add: notes_segment_def n)
  show "buildCallScript p = buildCallScript (p\<lparr>notes' := None\<rparr>)"
    by (rule buildCallScript_empty_notes [OF n])
  show "safeParse em requestSchema (JObject (filter (\<lambda>kv. fst kv \<noteq> lit ''notes'') kvs))
          = Inr (p\<lparr>notes' := None\<rparr>)"
    by (rule safeParse_without_notes [OF assms])
qed

theorem empty_optional_as_absent_witness:
  "safeParse default_error_map requestSchema (JObject blank_fields) = Inr blank_request
   \<and> map_of blank_fields (lit ''callerNumber'') = Some (JString (lit ''  ''))
   \<and> map_of blank_fields (lit ''notes'') = Some (JString (lit ''  ''))
   \<and> trim (lit ''  '') = []
   \<and> callback blank_request = generic_callback
   \<and> buildCallScript blank_request = buildCallScript (blank_request\<lparr>callerNumber := None\<rparr>)
   \<and> notes_segment blank_request = None
   \<and> buildCallScript blank_request = buildCallScript (blank_request\<lparr>notes' := None\<rparr>)"
proof -
  note th = empty_optional_as_absent [OF safeParse_blank [of default_error_map],
      where s = "lit ''  ''"]
  have a: "map_of blank_fields (lit ''callerNumber'') = Some (JString (lit ''  ''))
      \<and> trim (lit ''  '') = []"
    and b: "map_of blank_fields (lit ''notes'') = Some (JString (lit ''  ''))
      \<and> trim (lit ''  '') = []"
    by (simp_all add: blank_lookup trim_samples)
  from th [THEN conjunct1, THEN mp, OF a] th [THEN conjunct2, THEN mp, OF b] a b
    safeParse_blank [of default_error_map]
  show ?thesis by blast
qed

section \<open>Escaping and unescaping\<close>

lemma replace_all_single_append:
  "replace_all [c] rep (u @ v) = replace_all [c] rep u @ replace_all [c] rep v"
  by (induction u) simp_all

lemma escapeForXml_append: "escapeForXml (u @ v) = escapeForXml u @ escapeForXml v"
  by (simp add: escapeForXml_def replace_all_single_append)

lemma escapeForXml_Nil: "escapeForXml [] = []"
  by (simp add: escapeForXml_def)

lemma escapeForXml_single:
  "escapeForXml [x] =
     (if x = 0x26 then lit ''&amp;''
      else if x = 0x22 then lit ''&quot;''
      else if x = 0x27 then lit ''&apos;''
      else if x = 0x3C then lit ''&lt;''
      else if x = 0x3E then lit ''&gt;''
      else [x])"
  by (simp add: escapeForXml_def lit_def)

lemma escapeForXml_Cons: "escapeForXml (x # xs) = escapeForXml [x] @ escapeForXml xs"
  using escapeForXml_append [of "[x]" xs] by simp

lemma unescapeXml_Nil: "unescapeXml [] = []"
  by (simp add: unescapeXml_def)

lemma unescapeXml_amp: "unescapeXml (lit ''&amp;'' @ r) = 0x26 # unescapeXml r"
  by (simp add: unescapeXml_def lit_def)

lemma unescapeXml_quot: "unescapeXml (lit ''&quot;'' @ r) = 0x22 # unescapeXml r"
  by (simp add: unescapeXml_def lit_def)

lemma unescapeXml_apos: "unescapeXml (lit ''&apos;'' @ r) = 0x27 # unescapeXml r"
  by (simp add: unescapeXml_def lit_def)

lemma unescapeXml_lt: "unescapeXml (lit ''&lt;'' @ r) = 0x3C # unescapeXml r"
  by (simp add: unescapeXml_def lit_def)

lemma unescapeXml_gt: "unescapeXml (lit ''&gt;'' @ r) = 0x3E # unescapeXml r"
  by (simp add: unescapeXml_def lit_def)

lemma unescapeXml_other: "x \<noteq> 0x26 \<Longrightarrow> unescapeXml (x # r) = x # unescapeXml r"
  by (simp add: unescapeXml_def lit_def)

lemma unescapeXml_step: "unescapeXml (escapeForXml [x] @ r) = x # unescapeXml r"
  by (simp add: escapeForXml_single unescapeXml_amp unescapeXml_quot unescapeXml_apos
      unescapeXml_lt unescapeXml_gt unescapeXml_other)

text \<open>
  C6. Escaping a text for the markup and then unescaping it gives the text back; this
  holds for every text, so for every synthesized script.
\<close>

theorem escape_unescape_roundtrip: "unescapeXml (escapeForXml s) = s"
proof (induction s)
  case Nil
  show ?case by (simp add: escapeForXml_Nil unescapeXml_Nil)
next
  case (Cons x xs)
  have "unescapeXml (escapeForXml (x # xs)) = unescapeXml (escapeForXml [x] @ escapeForXml xs)"
    by (rule arg_cong [OF escapeForXml_Cons])
  also have "\<dots> = x # unescapeXml (escapeForXml xs)"
    by (rule unescapeXml_step)
  finally show ?case using Cons.IH by simp
qed

section \<open>The endpoint: validation\<close>

lemma zstring_rule_min_Some:
  "rule_min em n v = Some m \<Longrightarrow>
     zstring em p [Trim, Min n None] v = Inl [\<lparr>issue_path = p, issue_message = m\<rparr>]"
  by (auto simp: zstring_def rule_min_def split: option.splits json.splits if_splits)

lemma zstring_rule_min_None:
  "rule_min em n v = None \<Longrightarrow> \<exists>t. zstring em p [Trim, Min n None] v = Inr t"
  by (auto simp: zstring_def rule_min_def split: option.splits json.splits if_splits)

lemma zstring_rule_phone_Some:
  "rule_phone em v = Some m \<Longrightarrow>
     zstring em p [Trim, Regex phone_regex (lit ''Phone numbers must be in E.164 format.'')] v
       = Inl [\<lparr>issue_path = p, issue_message = m\<rparr>]"
  by (auto simp: zstring_def rule_phone_def split: option.splits json.splits if_splits)

lemma zstring_rule_phone_None:
  "rule_phone em v = None \<Longrightarrow>
     \<exists>t. zstring em p [Trim, Regex phone_regex (lit ''Phone numbers must be in E.164 format.'')] v
       = Inr t"
  by (auto simp: zstring_def rule_phone_def split: option.splits json.splits if_splits)

lemma zoptional_text:
  "optional_text v \<Longrightarrow> \<exists>t. zoptional (zstring em p [Trim]) v = Inr t"
  by (auto simp: optional_text_def zoptional_def zstring_def split: option.splits json.splits)

lemma safeParse_first_violation:
  assumes "optional_text (map_of kvs (lit ''callerNumber''))"
    and "optional_text (map_of kvs (lit ''notes''))"
  shows "case first_violation em kvs of
           Some m \<Rightarrow> (\<exists>p rest. safeParse em requestSchema (JObject kvs)
                                 = Inl (\<lparr>issue_path = p, issue_message = m\<rparr> # rest))
         | None \<Rightarrow> (\<exists>data. safeParse em requestSchema (JObject kvs) = Inr data)"
proof -
  obtain t2 where t2: "zoptional (zstring em [lit ''callerNumber''] [Trim])
      (map_of kvs (lit ''callerNumber'')) = Inr t2"
    using zoptional_text [OF assms(1)] by blast
  obtain t6 where t6: "zoptional (zstring em [lit ''notes''] [Trim])
      (map_of kvs (lit ''notes'')) = Inr t6"
    using zoptional_text [OF assms(2)] by blast
  note defs = safeParse_def requestSchema_def t2 t6 first_violation_def
  show ?thesis
  proof (cases "rule_min em 2 (map_of kvs (lit ''callerName''))")
    case (Some m)
    show ?thesis
      by (simp add: defs Some zstring_rule_min_Some [OF Some])
  next
    case n1: None
    obtain t1 where t1: "zstring em [lit ''callerName''] [Trim, Min 2 None]
        (map_of kvs (lit ''callerName'')) = Inr t1"
      using zstring_rule_min_None [OF n1] by blast
    show ?thesis
    proof (cases "rule_min em 2 (map_of kvs (lit ''recipientName''))")
      case (Some m)
      show ?thesis
        by (simp add: defs n1 t1 Some zstring_rule_min_Some [OF Some])
    next
      case n3: None
      obtain t3 where t3: "zstring em [lit ''recipientName''] [Trim, Min 2 None]
          (map_of kvs (lit ''recipientName'')) = Inr t3"
        using zstring_rule_min_None [OF n3] by blast
      show ?thesis
      proof (cases "rule_phone em (map_of kvs (lit ''recipientNumber''))")
        case (Some m)
        show ?thesis
          by (simp add: defs n1 t1 n3 t3 Some zstring_rule_phone_Some [OF Some])
      next
        case n4: None
        obtain t4 where t4: "zstring em [lit ''recipientNumber'']
            [Trim, Regex phone_regex (lit ''Phone numbers must be in E.164 format.'')]
            (map_of kvs (lit ''recipientNumber'')) = Inr t4"
          using zstring_rule_phone_None [OF n4] by blast
        show ?thesis
        proof (cases "rule_min em 5 (map_of kvs (lit ''objective''))")
          case (Some m)
          show ?thesis
            by (simp add: defs n1 t1 n3 t3 n4 t4 Some zstring_rule_min_Some [OF Some])
        next
          case n5: None
          obtain t5 where t5: "zstring em [lit ''objective''] [Trim, Min 5 None]
              (map_of kvs (lit ''objective'')) = Inr t5"
            using zstring_rule_min_None [OF n5] by blast
          show ?thesis
            by (simp add: defs n1 t1 n3 t3 n4 t4 n5 t5)
        qed
      qed
    qed
  qed
qed

lemma first_violation_sample: "first_violation em sample_fields = None"
  by (simp add: first_violation_def rule_min_def rule_phone_def sample_lookup trim_samples
      length_samples phone_sample)

text \<open>
  C1, as the endpoint has it. For every body that is an object in which callerNumber
  and notes are each absent or a text: when a rule of the specification is violated,
  the response is the failure 400 with the message of the first violated field in the
  order callerName, recipientName, recipientNumber, objective (each text trimmed before
  its length or pattern is checked), and no call is placed; when none is violated, the
  parse succeeds, so callerNumber and notes cause no failure.
\<close>

theorem first_violated_field_message:
  assumes "optional_text (map_of kvs (lit ''callerNumber''))"
    and "optional_text (map_of kvs (lit ''notes''))"
  shows "(first_violation em kvs = Some m \<longrightarrow>
            POST em twilio env (Inr (JObject kvs))
              = \<lparr>responded = \<lparr>status = 400, success = False, message = m\<rparr>,
                 calls_created = [], console_error = []\<rparr>)
       \<and> (first_violation em kvs = None \<longrightarrow>
            (\<exists>data. safeParse em requestSchema (JObject kvs) = Inr data))"
  using safeParse_first_violation [OF assms, of em]
  by (auto simp: POST_def try_block_def)


theorem first_violated_field_message_witness:
  "optional_text (map_of [(lit ''callerName'', JString (lit '' A ''))] (lit ''callerNumber''))
   \<and> optional_text (map_of [(lit ''callerName'', JString (lit '' A ''))] (lit ''notes''))
   \<and> first_violation default_error_map [(lit ''callerName'', JString (lit '' A ''))]
       = Some (lit ''String must contain at least 2 character(s)'')
   \<and> POST default_error_map accepting_twilio sample_env
        (Inr (JObject [(lit ''callerName'', JString (lit '' A ''))]))
       = \<lparr>responded = \<lparr>status = 400, success = False,
                        message = lit ''String must contain at least 2 character(s)''\<rparr>,
          calls_created = [], console_error = []\<rparr>
   \<and> first_violation default_error_map sample_fields = None
   \<and> (\<exists>data. safeParse default_error_map requestSchema (JObject sample_fields) = Inr data)"
proof -
  let ?kvs = "[(lit ''callerName'', JString (lit '' A ''))]"
  have o: "optional_text (map_of ?kvs (lit ''callerNumber''))"
    "optional_text (map_of ?kvs (lit ''notes''))"
    by (simp_all add: optional_text_def lit_def)
  note t = trim_samples(7)
  have v: "first_violation default_error_map ?kvs
      = Some (lit ''String must contain at least 2 character(s)'')"
    by (simp add: first_violation_def rule_min_def t default_error_map_def decimal.simps)
      (simp add: lit_def)
  have o': "optional_text (map_of sample_fields (lit ''callerNumber''))"
    "optional_text (map_of sample_fields (lit ''notes''))"
    by (simp_all add: optional_text_def sample_lookup)
  show ?thesis
    using first_violated_field_message [OF o, of default_error_map
        "lit ''String must contain at least 2 character(s)''" accepting_twilio sample_env]
      first_violated_field_message [OF o', of default_error_map]
      o v first_violation_sample [of default_error_map]
    by simp
qed

text \<open>
  The claim as first stated speaks of every untyped input. A body whose callerNumber is
  \<open>null\<close> violates none of the four rules and is refused all the same, with the
  message of callerNumber.
\<close>

theorem optional_field_failure_counterexample:
  "first_violation default_error_map null_number_fields = None
   \<and> responded (POST default_error_map accepting_twilio sample_env
                  (Inr (JObject null_number_fields)))
     = \<lparr>status = 400, success = False, message = lit ''Expected string, received null''\<rparr>"
proof -
  have "first_violation default_error_map null_number_fields = None"
    by (simp add: first_violation_def rule_min_def rule_phone_def null_number_lookup
        trim_samples length_samples phone_sample)
  moreover have "invalid_type_message default_error_map T_string T_null
      = lit ''Expected string, received null''"
    by (simp add: default_error_map_def) (simp add: lit_def)
  ultimately show ?thesis
    by (simp add: POST_def try_block_def safeParse_null_number)
qed

section \<open>The endpoint: thrown values\<close>

text \<open>
  C2, as the endpoint has it. Whatever is thrown while the body is read, while the
  provider's client is made or while the call is placed, is caught and logged, and the
  response is the failure 500 whose message is the message of the thrown \<open>Error\<close>, or
  the generic server-error text when the thrown value is not an \<open>Error\<close>.
\<close>

theorem thrown_error_response:
  assumes "request = Inl e
     \<or> (\<exists>json data a t f. request = Inr json \<and> safeParse em requestSchema json = Inr data
          \<and> ensureTwilioEnv env = Inr (a, t, f)
          \<and> (twilio a t = Inl e
              \<or> (\<exists>client. twilio a t = Inr client
                    \<and> client \<lparr>call_to = recipientNumber data, call_from = f,
                               twiml = say_twiml (buildCallScript data)\<rparr> = Inl e)))"
  shows "responded (POST em twilio env request)
           = \<lparr>status = 500, success = False,
              message = (case e of ErrorObject m \<Rightarrow> m | ThrownValue v \<Rightarrow> unexpected_server_error)\<rparr>
       \<and> console_error (POST em twilio env request) = [e]"
  using assms by (auto simp: POST_def try_block_def)

theorem thrown_error_response_witness:
  "responded (POST default_error_map broken_twilio sample_env (Inr (JObject sample_fields)))
     = \<lparr>status = 500, success = False, message = unexpected_server_error\<rparr>
   \<and> console_error (POST default_error_map broken_twilio sample_env (Inr (JObject sample_fields)))
     = [ThrownValue JNull]"
proof -
  note env = ensureTwilioEnv_sample
  have "Inr (JObject sample_fields) = Inl (ThrownValue JNull)
     \<or> (\<exists>json data a t f. Inr (JObject sample_fields) = Inr json
          \<and> safeParse default_error_map requestSchema json = Inr data
          \<and> ensureTwilioEnv sample_env = Inr (a, t, f)
          \<and> (broken_twilio a t = Inl (ThrownValue JNull)
              \<or> (\<exists>client. broken_twilio a t = Inr client
                    \<and> client \<lparr>call_to = recipientNumber data, call_from = f,
                               twiml = say_twiml (buildCallScript data)\<rparr>
                        = Inl (ThrownValue JNull))))"
    using safeParse_sample [of default_error_map] env by (simp add: broken_twilio_def)
  from thrown_error_response [OF this] show ?thesis by simp
qed


text \<open>
  The claim as first stated promises the generic text for every such error. A body that
  is not JSON makes \<open>request.json()\<close> throw an \<open>Error\<close>, and its message is what the
  caller receives.
\<close>

theorem error_message_surfaced_counterexample:
  "message (responded (POST default_error_map accepting_twilio sample_env
              (Inl (ErrorObject (lit ''Unexpected end of JSON input'')))))
     = lit ''Unexpected end of JSON input''
   \<and> lit ''Unexpected end of JSON input'' \<noteq> unexpected_server_error"
  by (simp add: POST_def try_block_def unexpected_server_error_def lit_def)

section \<open>The endpoint: calls placed\<close>

lemma calls_created_le_1: "length (calls_created (POST em twilio env request)) \<le> 1"
  by (simp add: POST_def try_block_def Let_def split: sum.splits prod.splits list.splits)

text \<open>
  C3, as the endpoint has it. A request that fails validation places no call, and what
  the endpoint does with it does not depend on the provider or on the configuration. A
  request that passes validation and the configuration check places exactly one call
  when the provider's module loads and builds its client: to the recipient's number,
  from the configured number, with the escaped script; it places none when loading or
  building throws. No request places more than one call.
\<close>

theorem provider_invocation_count:
  "(request = Inr json \<and> safeParse em requestSchema json = Inl issues \<longrightarrow>
      calls_created (POST em twilio env request) = []
      \<and> POST em twilio env request = POST em twilio' env' request)
   \<and> (request = Inr json \<and> safeParse em requestSchema json = Inr data
        \<and> ensureTwilioEnv env = Inr (a, t, f) \<and> twilio a t = Inr client \<longrightarrow>
      calls_created (POST em twilio env request)
        = [\<lparr>call_to = recipientNumber data, call_from = f,
            twiml = say_twiml (buildCallScript data)\<rparr>])
   \<and> length (calls_created (POST em twilio env request)) \<le> 1
   \<and> (request = Inr json \<and> safeParse em requestSchema json = Inr data
        \<and> ensureTwilioEnv env = Inr (a, t, f) \<and> twilio a t = Inl e \<longrightarrow>
      calls_created (POST em twilio env request) = [])"
proof -
  have none: "calls_created (POST em twilio env request) = []
      \<and> POST em twilio env request = POST em twilio' env' request"
    if "request = Inr json \<and> safeParse em requestSchema json = Inl issues"
    using that by (simp add: POST_def try_block_def)
  have one: "calls_created (POST em twilio env request)
      = [\<lparr>call_to = recipientNumber data, call_from = f,
          twiml = say_twiml (buildCallScript data)\<rparr>]"
    if "request = Inr json \<and> safeParse em requestSchema json = Inr data
      \<and> ensureTwilioEnv env = Inr (a, t, f) \<and> twilio a t = Inr client"
    using that by (simp add: POST_def try_block_def Let_def split: sum.splits)
  have no_client: "calls_created (POST em twilio env request) = []"
    if "request = Inr json \<and> safeParse em requestSchema json = Inr data
      \<and> ensureTwilioEnv env = Inr (a, t, f) \<and> twilio a t = Inl e"
    using that by (simp add: POST_def try_block_def)
  from none one no_client calls_created_le_1 [of em twilio env request] show ?thesis
    by blast
qed

theorem provider_invocation_count_witness:
  "calls_created (POST default_error_map accepting_twilio sample_env
       (Inr (JObject null_number_fields))) = []
   \<and> calls_created (POST default_error_map accepting_twilio sample_env
       (Inr (JObject sample_fields)))
     = [\<lparr>call_to = lit ''+15551234567'', call_from = lit ''+15550000000'',
         twiml = say_twiml (buildCallScript sample_request)\<rparr>]"
proof -
  note bad = safeParse_null_number [of default_error_map]
  have tw: "accepting_twilio (lit ''AC0'') (lit ''token'') = Inr (\<lambda>args. Inr (lit ''CA1''))"
    by (simp add: accepting_twilio_def)
  show ?thesis
    using provider_invocation_count [of "Inr (JObject null_number_fields)"
        "JObject null_number_fields" default_error_map _ accepting_twilio sample_env
        accepting_twilio sample_env]
      provider_invocation_count [of "Inr (JObject sample_fields)"
        "JObject sample_fields" default_error_map _ accepting_twilio sample_env
        accepting_twilio sample_env sample_request "lit ''AC0''" "lit ''token''"
        "lit ''+15550000000''" "\<lambda>args. Inr (lit ''CA1'')"]
      bad safeParse_sample [of default_error_map] ensureTwilioEnv_sample tw
    by (simp add: sample_request_def)
qed

text \<open>
  The claim as first stated promises one call for every request that passes validation
  and the configuration check. The module is loaded and the client built after that
  check and before the call; when that throws, the request is answered without a call.
\<close>

theorem client_failure_counterexample:
  "safeParse default_error_map requestSchema (JObject sample_fields) = Inr sample_request
   \<and> ensureTwilioEnv sample_env = Inr (lit ''AC0'', lit ''token'', lit ''+15550000000'')
   \<and> calls_created (POST default_error_map broken_twilio sample_env
                       (Inr (JObject sample_fields))) = []"
  by (simp add: POST_def try_block_def safeParse_sample ensureTwilioEnv_sample
      broken_twilio_def)

text \<open>
  C4. For a validated request, when one of the three configuration values is not set (or
  is empty), the endpoint answers with the failure 500 and the configuration message,
  having placed no call and whatever the provider is; and this outcome differs from the
  outcome of any request that the provider rejected.
\<close>

theorem missing_configuration_fails_fast:
  assumes "safeParse em requestSchema json = Inr data"
    and "falsy (TWILIO_ACCOUNT_SID env) \<or> falsy (TWILIO_AUTH_TOKEN env)
         \<or> falsy (TWILIO_FROM_NUMBER env)"
  shows "POST em twilio env (Inr json)
           = \<lparr>responded = \<lparr>status = 500, success = False, message = missing_configuration\<rparr>,
              calls_created = [], console_error = [ErrorObject missing_configuration]\<rparr>
       \<and> (ensureTwilioEnv env' = Inr (a, t, f) \<and> twilio' a t = Inr client
            \<and> client \<lparr>call_to = recipientNumber data, call_from = f,
                       twiml = say_twiml (buildCallScript data)\<rparr> = Inl e
          \<longrightarrow> POST em twilio' env' (Inr json) \<noteq> POST em twilio env (Inr json))"
proof -
  have cfg: "ensureTwilioEnv env = Inl (ErrorObject missing_configuration)"
    using assms(2) by (simp add: ensureTwilioEnv_def)
  have here: "POST em twilio env (Inr json)
      = \<lparr>responded = \<lparr>status = 500, success = False, message = missing_configuration\<rparr>,
         calls_created = [], console_error = [ErrorObject missing_configuration]\<rparr>"
    by (simp add: POST_def try_block_def assms(1) cfg)
  have "calls_created (POST em twilio' env' (Inr json)) \<noteq> []"
    if "ensureTwilioEnv env' = Inr (a, t, f) \<and> twilio' a t = Inr client
         \<and> client \<lparr>call_to = recipientNumber data, call_from = f,
                    twiml = say_twiml (buildCallScript data)\<rparr> = Inl e"
    using that by (simp add: POST_def try_block_def assms(1))
  with here show ?thesis by auto
qed

theorem missing_configuration_fails_fast_witness:
  "POST default_error_map accepting_twilio (sample_env\<lparr>TWILIO_AUTH_TOKEN := None\<rparr>)
     (Inr (JObject sample_fields))
     = \<lparr>responded = \<lparr>status = 500, success = False, message = missing_configuration\<rparr>,
        calls_created = [], console_error = [ErrorObject missing_configuration]\<rparr>
   \<and> POST default_error_map rejecting_twilio sample_env (Inr (JObject sample_fields))
     \<noteq> POST default_error_map accepting_twilio (sample_env\<lparr>TWILIO_AUTH_TOKEN := None\<rparr>)
         (Inr (JObject sample_fields))"
proof -
  have f: "falsy (TWILIO_ACCOUNT_SID (sample_env\<lparr>TWILIO_AUTH_TOKEN := None\<rparr>))
      \<or> falsy (TWILIO_AUTH_TOKEN (sample_env\<lparr>TWILIO_AUTH_TOKEN := None\<rparr>))
      \<or> falsy (TWILIO_FROM_NUMBER (sample_env\<lparr>TWILIO_AUTH_TOKEN := None\<rparr>))"
    by (simp add: falsy_def)
  have tw: "rejecting_twilio (lit ''AC0'') (lit ''token'')
      = Inr (\<lambda>args. Inl (ErrorObject (lit ''Authenticate'')))"
    by (simp add: rejecting_twilio_def)
  note th = missing_configuration_fails_fast [OF safeParse_sample f, of default_error_map
      accepting_twilio sample_env "lit ''AC0''" "lit ''token''" "lit ''+15550000000''"
      rejecting_twilio "\<lambda>args. Inl (ErrorObject (lit ''Authenticate''))"
      "ErrorObject (lit ''Authenticate'')"]
  have prem: "ensureTwilioEnv sample_env = Inr (lit ''AC0'', lit ''token'', lit ''+15550000000'')
      \<and> rejecting_twilio (lit ''AC0'') (lit ''token'')
          = Inr (\<lambda>args. Inl (ErrorObject (lit ''Authenticate'')))
      \<and> (\<lambda>args. Inl (ErrorObject (lit ''Authenticate'')))
            \<lparr>call_to = recipientNumber sample_request, call_from = lit ''+15550000000'',
             twiml = say_twiml (buildCallScript sample_request)\<rparr>
          = (Inl (ErrorObject (lit ''Authenticate'')) :: thrown + jsstring)"
    by (simp add: ensureTwilioEnv_sample tw)
  from th [THEN conjunct1] th [THEN conjunct2, THEN mp, OF prem] show ?thesis
    by (rule conjI)
qed

section \<open>The activity log\<close>

lemma logs_settle:
  "logs (handleSubmit_settle ol fetched s)
     = map (\<lambda>log. if entry_id log = entry_id ol then settled fetched log else log) (logs s)"
  by (simp add: handleSubmit_settle_def settled_def resetForm_def Let_def split: sum.splits)

lemma entry_id_settled: "entry_id (settled fetched log) = entry_id log"
  by (simp add: settled_def split: sum.splits)

lemma form_settle:
  "form (handleSubmit_settle ol fetched s)
     = (case fetched of
          Inr payload \<Rightarrow> if payload_success payload then defaultForm else form s
        | Inl error \<Rightarrow> form s)"
  by (simp add: handleSubmit_settle_def resetForm_def Let_def split: sum.splits)

lemma handleSubmit_begin_SomeD:
  assumes "handleSubmit_begin em uuid now s = (s1, Some (ol, data))"
  shows "logs s1 = ol # logs s \<and> entry_id ol = uuid \<and> entry_status ol = Queued
     \<and> form s1 = form s"
  using assms by (auto simp: handleSubmit_begin_def Let_def split: sum.splits)

lemma form_lookup:
  "form_object sample_request =
     JObject [(lit ''callerName'', JString (lit ''Al'')),
              (lit ''recipientName'', JString (lit ''Jamie'')),
              (lit ''recipientNumber'', JString (lit ''+15551234567'')),
              (lit ''objective'', JString (lit ''Confirm the meeting.''))]"
  by (simp add: form_object_def sample_request_def)

lemma safeParse_form_sample:
  "safeParse em callRequestSchema (form_object sample_request) = Inr sample_request"
proof -
  let ?kvs = "[(lit ''callerName'', JString (lit ''Al'')),
              (lit ''recipientName'', JString (lit ''Jamie'')),
              (lit ''recipientNumber'', JString (lit ''+15551234567'')),
              (lit ''objective'', JString (lit ''Confirm the meeting.''))]"
  have l: "map_of ?kvs (lit ''callerName'') = Some (JString (lit ''Al''))"
    "map_of ?kvs (lit ''callerNumber'') = None"
    "map_of ?kvs (lit ''recipientName'') = Some (JString (lit ''Jamie''))"
    "map_of ?kvs (lit ''recipientNumber'') = Some (JString (lit ''+15551234567''))"
    "map_of ?kvs (lit ''objective'') = Some (JString (lit ''Confirm the meeting.''))"
    "map_of ?kvs (lit ''notes'') = None"
    by (simp_all add: lit_def)
  show ?thesis
    unfolding form_lookup
    by (simp add: safeParse_def callRequestSchema_def l zstring_min zstring_recipientNumber
        zoptional_None trim_samples phone_sample length_samples sample_request_def
        del: map_of.simps)
qed

lemma begin_sample_page:
  "handleSubmit_begin em (lit ''a'') (lit ''t1'') sample_page
     = (page_a, Some (sample_entry (lit ''a'') (lit ''t1''), sample_request))"
  by (simp add: handleSubmit_begin_def sample_page_def safeParse_form_sample page_a_def
      sample_entry_def Let_def) (simp add: sample_request_def)

lemma begin_page_a:
  "handleSubmit_begin em (lit ''b'') (lit ''t2'') page_a
     = (page_b, Some (sample_entry (lit ''b'') (lit ''t2''), sample_request))"
  by (simp add: handleSubmit_begin_def sample_page_def safeParse_form_sample page_a_def
      page_b_def sample_entry_def Let_def) (simp add: sample_request_def)

text \<open>
  C5. A resolution keeps the length of the log and leaves every entry with another
  identifier as it was, and two resolutions for different identifiers give the same log
  in either order. So, for two submissions with different identifiers of which the
  second resolves first: the log holds the second entry, then the first, then the older
  ones; the resolution of the second leaves the first entry as it was submitted, and the
  later resolution of the first leaves the second entry as its own resolution made it.
\<close>

theorem reconcile_by_identifier:
  "length (logs (handleSubmit_settle o1 r1 s)) = length (logs s)
   \<and> (\<forall>i < length (logs s).
         entry_id (logs s ! i) \<noteq> entry_id o1 \<longrightarrow>
           logs (handleSubmit_settle o1 r1 s) ! i = logs s ! i)
   \<and> (entry_id o1 \<noteq> entry_id o2 \<longrightarrow>
         logs (handleSubmit_settle o1 r1 (handleSubmit_settle o2 r2 s))
           = logs (handleSubmit_settle o2 r2 (handleSubmit_settle o1 r1 s)))
   \<and> (handleSubmit_begin em a t1 s0 = (sA, Some (oA, dA))
        \<and> handleSubmit_begin em b t2 sA' = (sB, Some (oB, dB))
        \<and> logs sA' = logs sA \<and> a \<noteq> b \<longrightarrow>
         logs sB = oB # oA # logs s0
         \<and> logs (handleSubmit_settle oB rB sB) ! 1 = oA
         \<and> logs (handleSubmit_settle oA rA (handleSubmit_settle oB rB sB)) ! 0
             = logs (handleSubmit_settle oB rB sB) ! 0)"
proof -
  have frame: "length (logs (handleSubmit_settle o1 r1 s)) = length (logs s)
      \<and> (\<forall>i < length (logs s).
            entry_id (logs s ! i) \<noteq> entry_id o1 \<longrightarrow>
              logs (handleSubmit_settle o1 r1 s) ! i = logs s ! i)"
    by (simp add: logs_settle)
  have commute: "logs (handleSubmit_settle o1 r1 (handleSubmit_settle o2 r2 s))
      = logs (handleSubmit_settle o2 r2 (handleSubmit_settle o1 r1 s))"
    if "entry_id o1 \<noteq> entry_id o2"
    using that by (auto simp: logs_settle entry_id_settled)
  have two: "logs sB = oB # oA # logs s0
      \<and> logs (handleSubmit_settle oB rB sB) ! 1 = oA
      \<and> logs (handleSubmit_settle oA rA (handleSubmit_settle oB rB sB)) ! 0
          = logs (handleSubmit_settle oB rB sB) ! 0"
    if h: "handleSubmit_begin em a t1 s0 = (sA, Some (oA, dA))
        \<and> handleSubmit_begin em b t2 sA' = (sB, Some (oB, dB))
        \<and> logs sA' = logs sA \<and> a \<noteq> b"
  proof -
    from h handleSubmit_begin_SomeD [of em a t1 s0 sA oA dA]
    have A: "logs sA = oA # logs s0" "entry_id oA = a" by auto
    from h handleSubmit_begin_SomeD [of em b t2 sA' sB oB dB]
    have B: "logs sB = oB # logs sA'" "entry_id oB = b" by auto
    from h have ab: "a \<noteq> b" and same: "logs sA' = logs sA" by auto
    show ?thesis
      using ab by (simp add: logs_settle entry_id_settled A B same)
  qed
  from frame commute two show ?thesis by blast
qed

theorem reconcile_by_identifier_witness:
  "handleSubmit_begin default_error_map (lit ''a'') (lit ''t1'') sample_page
     = (page_a, Some (sample_entry (lit ''a'') (lit ''t1''), sample_request))
   \<and> handleSubmit_begin default_error_map (lit ''b'') (lit ''t2'') page_a
     = (page_b, Some (sample_entry (lit ''b'') (lit ''t2''), sample_request))
   \<and> lit ''a'' \<noteq> lit ''b''
   \<and> logs page_b = [sample_entry (lit ''b'') (lit ''t2''), sample_entry (lit ''a'') (lit ''t1'')]
   \<and> logs (handleSubmit_settle (sample_entry (lit ''b'') (lit ''t2''))
              (Inr \<lparr>payload_success = False, payload_message = lit ''Authenticate''\<rparr>) page_b) ! 1
       = sample_entry (lit ''a'') (lit ''t1'')
   \<and> logs (handleSubmit_settle (sample_entry (lit ''a'') (lit ''t1''))
              (Inr \<lparr>payload_success = True, payload_message = lit ''Call queued''\<rparr>)
              (handleSubmit_settle (sample_entry (lit ''b'') (lit ''t2''))
                 (Inr \<lparr>payload_success = False, payload_message = lit ''Authenticate''\<rparr>)
                 page_b)) ! 0
       = logs (handleSubmit_settle (sample_entry (lit ''b'') (lit ''t2''))
                 (Inr \<lparr>payload_success = False, payload_message = lit ''Authenticate''\<rparr>)
                 page_b) ! 0"
proof -
  have ab: "lit ''a'' \<noteq> lit ''b''"
    by (simp add: lit_def)
  have prem: "handleSubmit_begin default_error_map (lit ''a'') (lit ''t1'') sample_page
        = (page_a, Some (sample_entry (lit ''a'') (lit ''t1''), sample_request))
      \<and> handleSubmit_begin default_error_map (lit ''b'') (lit ''t2'') page_a
        = (page_b, Some (sample_entry (lit ''b'') (lit ''t2''), sample_request))
      \<and> logs page_a = logs page_a \<and> lit ''a'' \<noteq> lit ''b''"
    using ab by (simp add: begin_sample_page begin_page_a)
  have l0: "logs sample_page = []"
    by (simp add: sample_page_def)
  note th = reconcile_by_identifier [of
      "sample_entry (lit ''b'') (lit ''t2'')"
      "Inr \<lparr>payload_success = False, payload_message = lit ''Authenticate''\<rparr>"
      page_b "sample_entry (lit ''a'') (lit ''t1'')"
      "Inr \<lparr>payload_success = True, payload_message = lit ''Call queued''\<rparr>"
      default_error_map "lit ''a''" "lit ''t1''" sample_page page_a
      "sample_entry (lit ''a'') (lit ''t1'')" sample_request
      "lit ''b''" "lit ''t2''" page_a page_b
      "sample_entry (lit ''b'') (lit ''t2'')" sample_request
      "Inr \<lparr>payload_success = False, payload_message = lit ''Authenticate''\<rparr>"
      "Inr \<lparr>payload_success = True, payload_message = lit ''Call queued''\<rparr>"]
  from th [THEN conjunct2, THEN conjunct2, THEN conjunct2, THEN mp, OF prem] prem l0
  show ?thesis by simp
qed

text \<open>
  C9. When the round trip gives a failure, the form is left as it is and every entry
  with the identifier of the submission becomes \<open>error\<close> with the returned message;
  when it gives a success, the form is the default form and the entry becomes
  \<open>success\<close> with the returned message. The entry is the one that the submission put
  in front of the log, queued, without touching the form.
\<close>

theorem settle_outcome:
  "form (handleSubmit_settle ol (Inr \<lparr>payload_success = False, payload_message = m\<rparr>) s)
     = form s
   \<and> (\<forall>i < length (logs s).
         entry_id (logs s ! i) = entry_id ol \<longrightarrow>
           logs (handleSubmit_settle ol
                   (Inr \<lparr>payload_success = False, payload_message = m\<rparr>) s) ! i
             = (logs s ! i)\<lparr>entry_status := Error, responseMessage := m\<rparr>)
   \<and> form (handleSubmit_settle ol (Inr \<lparr>payload_success = True, payload_message = m\<rparr>) s)
       = defaultForm
   \<and> (\<forall>i < length (logs s).
         entry_id (logs s ! i) = entry_id ol \<longrightarrow>
           logs (handleSubmit_settle ol
                   (Inr \<lparr>payload_success = True, payload_message = m\<rparr>) s) ! i
             = (logs s ! i)\<lparr>entry_status := Success, responseMessage := m\<rparr>)
   \<and> (handleSubmit_begin em uuid now s0 = (s, Some (ol, data)) \<longrightarrow>
         logs s = ol # logs s0 \<and> entry_id ol = uuid \<and> entry_status ol = Queued
         \<and> form s = form s0)"
  using handleSubmit_begin_SomeD [of em uuid now s0 s ol data]
  by (simp add: logs_settle form_settle settled_def)

theorem settle_outcome_witness:
  "handleSubmit_begin default_error_map (lit ''a'') (lit ''t1'') sample_page
     = (page_a, Some (sample_entry (lit ''a'') (lit ''t1''), sample_request))
   \<and> form (handleSubmit_settle (sample_entry (lit ''a'') (lit ''t1''))
             (Inr \<lparr>payload_success = False, payload_message = lit ''Authenticate''\<rparr>) page_a)
       = sample_request
   \<and> logs (handleSubmit_settle (sample_entry (lit ''a'') (lit ''t1''))
             (Inr \<lparr>payload_success = False, payload_message = lit ''Authenticate''\<rparr>) page_a)
         ! 0
       = (sample_entry (lit ''a'') (lit ''t1''))
           \<lparr>entry_status := Error, responseMessage := lit ''Authenticate''\<rparr>
   \<and> form (handleSubmit_settle (sample_entry (lit ''a'') (lit ''t1''))
             (Inr \<lparr>payload_success = True, payload_message = lit ''Authenticate''\<rparr>) page_a)
       = defaultForm
   \<and> logs (handleSubmit_settle (sample_entry (lit ''a'') (lit ''t1''))
             (Inr \<lparr>payload_success = True, payload_message = lit ''Authenticate''\<rparr>) page_a)
         ! 0
       = (sample_entry (lit ''a'') (lit ''t1''))
           \<lparr>entry_status := Success, responseMessage := lit ''Authenticate''\<rparr>"
proof -
  have pa: "logs page_a = [sample_entry (lit ''a'') (lit ''t1'')]" "form page_a = sample_request"
    by (simp_all add: page_a_def sample_page_def)
  from settle_outcome [of "sample_entry (lit ''a'') (lit ''t1'')" "lit ''Authenticate''" page_a
      default_error_map "lit ''a''" "lit ''t1''" sample_page sample_request]
    begin_sample_page [of default_error_map] pa
  show ?thesis by simp
qed

end
